theory Spec2Isabelle
  imports Complex_Main "HOL-Library.AList" "HOL-Library.Sublist"
begin

section \<open>Python values and the interface to the imported libraries\<close>

text \<open>
  The repository is two notebooks whose code cells call numpy, matplotlib, nengo, nengo_dl,
  tensorflow and IPython. None of those libraries is part of the repository, so they are a
  parameter of the model: an oracle \<open>L\<close> answers every operation the notebook code performs on
  an object that a library made. An object made by a library is opaque (\<open>VObj h\<close>, \<open>h\<close> its
  identity); the values the notebook code builds itself (numbers, strings, tuples, lists,
  dicts, slices, the lambda, the two classes and their instances) are modelled as data.
  Every run is recorded as the list of library interactions with their outcomes.

  What the model fixes:
  \<^item> A library object is known by its identity alone. Two references are the same object
    when they are the same \<open>VObj h\<close>; a dictionary of the notebook finds a key by that
    identity.
  \<^item> A float literal is the real number it denotes. The notebook code does no arithmetic on
    floats; it hands them to the libraries.
  \<^item> An operation on a value of the notebook's own is done by the model where the notebooks
    use it (name lookup, integer arithmetic, \<^verbatim>\<open>range\<close>, indexing a tuple or list,
    looking up a dictionary, appending to a list, reading and storing an attribute of an
    instance, instantiating a class); every other operation is answered by the oracle.
  \<^item> The model describes the runs in which every library call comes back, with a value or
    with an exception.
\<close>

datatype exn =
    LibraryError nat
  | NameError string
  | AttributeError
  | TypeError
  | KeyError
  | IndexError
  | ValueError

text \<open>The body of a lambda: the expression forms that \<^verbatim>\<open>lambda t: np.sin(16 * t)\<close> uses.\<close>

datatype expr =
    Name string
  | IntE int
  | AttrE expr string
  | MulE expr expr
  | CallE expr expr

record pyclass =
  cls_name :: string
  cls_bases :: "string list"
  cls_methods :: "(string \<times> string list) list"

datatype val =
    VNone
  | VBool bool
  | VInt int
  | VFloat real
  | VStr string
  | VTuple "val list"
  | VList "val list"
  | VDict "(val \<times> val) list"
  | VSlice val val val
  | VLambda string expr
  | VClass pyclass
  | VInst string "(string \<times> val) list"
  | VObj nat

text \<open>
  The operations the notebook code performs through the libraries and the interpreter's
  runtime: imports, IPython line magics, attribute reads and writes, subscripts, arithmetic
  on foreign operands, calls with positional and keyword arguments, the two halves of the
  context-manager protocol, the notebook's display of a cell's last expression value, and
  calls of builtins that act on the outside (\<^verbatim>\<open>print\<close>).
\<close>

datatype call =
    Import string
  | ImportFrom string string
  | Magic string
  | GetAttr val string
  | SetAttr val string val
  | GetItem val val
  | BinOp string val val
  | Invoke val "val list" "(string \<times> val) list"
  | Enter val
  | Exit val
  | Display val
  | Builtin string "val list"

text \<open>
  An event is one interaction with its outcome. \<open>Called c r\<close>: the operation \<open>c\<close> raised
  (\<open>Inl\<close>) or returned the object \<open>h\<close> (\<open>Inr h\<close>). \<open>Iterated v r\<close>: \<open>v\<close> was unpacked and
  raised or yielded the objects \<open>r\<close>. \<open>Exited m e r\<close>: the context manager \<open>m\<close> had
  \<^verbatim>\<open>__exit__\<close> called with the pending exception \<open>e\<close>, which raised or returned a
  value whose truth is \<open>r\<close> (true swallows \<open>e\<close>). The operation \<open>Exit m\<close> is the call of
  \<^verbatim>\<open>__exit__\<close> when no exception is pending. The oracle sees the interactions so far, so
  its answers may depend on everything that happened before.
\<close>

datatype event =
    Called call "exn + nat"
  | Iterated val "exn + nat list"
  | Exited val exn "exn + bool"

record lib =
  respond :: "event list \<Rightarrow> call \<Rightarrow> exn + nat"
  items :: "event list \<Rightarrow> val \<Rightarrow> exn + nat list"
  exit_exc :: "event list \<Rightarrow> val \<Rightarrow> exn \<Rightarrow> exn + bool"

text \<open>
  The state of a kernel session: the global namespace of the notebook and the interactions
  so far. A statement maps a state to an outcome (\<open>Inl\<close>: the exception it raised) and the
  state it leaves; bindings made before an exception stay, as they do in a kernel.
\<close>

record pystate =
  globals :: "string \<rightharpoonup> val"
  trace :: "event list"

type_synonym 'a py = "pystate \<Rightarrow> (exn + 'a) \<times> pystate"

definition ret :: "'a \<Rightarrow> 'a py" where
  "ret x = (\<lambda>s. (Inr x, s))"

definition raise :: "exn \<Rightarrow> 'a py" where
  "raise e = (\<lambda>s. (Inl e, s))"

definition bnd :: "'a py \<Rightarrow> ('a \<Rightarrow> 'b py) \<Rightarrow> 'b py" where
  "bnd m f = (\<lambda>s. case m s of (Inl e, s') \<Rightarrow> (Inl e, s') | (Inr a, s') \<Rightarrow> f a s')"

definition seq :: "unit py \<Rightarrow> 'b py \<Rightarrow> 'b py" where
  "seq m n = bnd m (\<lambda>_. n)"

definition ecall :: "lib \<Rightarrow> call \<Rightarrow> val py" where
  "ecall L c = (\<lambda>s. let r = respond L (trace s) c
                     in (map_sum id VObj r, s\<lparr>trace := trace s @ [Called c r]\<rparr>))"

definition load :: "string \<Rightarrow> val py" where
  "load x = (\<lambda>s. case globals s x of None \<Rightarrow> (Inl (NameError x), s) | Some v \<Rightarrow> (Inr v, s))"

definition assign :: "string \<Rightarrow> val \<Rightarrow> unit py" where
  "assign x v = (\<lambda>s. (Inr (), s\<lparr>globals := (globals s)(x \<mapsto> v)\<rparr>))"

text \<open>\<^verbatim>\<open>x = <expression>\<close>: evaluate, then bind.\<close>

definition bind_name :: "string \<Rightarrow> val py \<Rightarrow> unit py" where
  "bind_name x m = bnd m (assign x)"

text \<open>An expression statement: evaluate and drop the value.\<close>

definition discard :: "val py \<Rightarrow> unit py" where
  "discard m = bnd m (\<lambda>_. ret ())"

text \<open>Evaluating argument expressions left to right.\<close>

fun eval_all :: "val py list \<Rightarrow> val list py" where
  "eval_all [] = ret []"
| "eval_all (m # ms) = bnd m (\<lambda>v. bnd (eval_all ms) (\<lambda>vs. ret (v # vs)))"

fun eval_kw :: "(string \<times> val py) list \<Rightarrow> (string \<times> val) list py" where
  "eval_kw [] = ret []"
| "eval_kw ((k, m) # ms) = bnd m (\<lambda>v. bnd (eval_kw ms) (\<lambda>vs. ret ((k, v) # vs)))"

subsection \<open>Operations on values\<close>

text \<open>
  Each operation is done natively where the operand is a value whose behaviour the model
  knows, and is otherwise handed to the oracle, which may answer or raise whatever the real
  runtime would.
\<close>

definition getattr :: "lib \<Rightarrow> val \<Rightarrow> string \<Rightarrow> val py" where
  "getattr L v a =
     (case v of
        VInst c attrs \<Rightarrow> (case map_of attrs a of Some x \<Rightarrow> ret x | None \<Rightarrow> ecall L (GetAttr v a))
      | _ \<Rightarrow> ecall L (GetAttr v a))"

text \<open>
  \<^verbatim>\<open>target.a = x\<close>. Python updates the object in place; the model returns the updated
  object, which for a library object is the same reference.
\<close>

definition store_attr :: "lib \<Rightarrow> val \<Rightarrow> string \<Rightarrow> val \<Rightarrow> val py" where
  "store_attr L v a x =
     (case v of
        VInst c attrs \<Rightarrow> ret (VInst c (AList.update a x attrs))
      | _ \<Rightarrow> bnd (ecall L (SetAttr v a x)) (\<lambda>_. ret v))"

definition seq_index :: "lib \<Rightarrow> val \<Rightarrow> val list \<Rightarrow> val \<Rightarrow> val py" where
  "seq_index L v xs k =
     (case k of
        VInt i \<Rightarrow>
          (let n = int (length xs); j = (if i < 0 then n + i else i)
           in if 0 \<le> j \<and> j < n then ret (xs ! nat j) else raise IndexError)
      | _ \<Rightarrow> ecall L (GetItem v k))"

definition subscript :: "lib \<Rightarrow> val \<Rightarrow> val \<Rightarrow> val py" where
  "subscript L v k =
     (case v of
        VDict kvs \<Rightarrow> (case map_of kvs k of Some x \<Rightarrow> ret x | None \<Rightarrow> raise KeyError)
      | VTuple xs \<Rightarrow> seq_index L v xs k
      | VList xs \<Rightarrow> seq_index L v xs k
      | _ \<Rightarrow> ecall L (GetItem v k))"

definition py_add :: "lib \<Rightarrow> val \<Rightarrow> val \<Rightarrow> val py" where
  "py_add L a b =
     (case (a, b) of
        (VInt i, VInt j) \<Rightarrow> ret (VInt (i + j))
      | _ \<Rightarrow> ecall L (BinOp ''+'' a b))"

definition py_mul :: "lib \<Rightarrow> val \<Rightarrow> val \<Rightarrow> val py" where
  "py_mul L a b =
     (case (a, b) of
        (VInt i, VInt j) \<Rightarrow> ret (VInt (i * j))
      | _ \<Rightarrow> ecall L (BinOp ''*'' a b))"

text \<open>
  A call. Calling a class of the notebook with no argument makes an instance with no
  attribute (neither class defines \<^verbatim>\<open>__init__\<close>).
\<close>

definition call_value :: "lib \<Rightarrow> val \<Rightarrow> val list \<Rightarrow> (string \<times> val) list \<Rightarrow> val py" where
  "call_value L f args kwargs =
     (case f of
        VClass c \<Rightarrow>
          (if args = [] \<and> kwargs = [] then ret (VInst (cls_name c) [])
           else ecall L (Invoke f args kwargs))
      | _ \<Rightarrow> ecall L (Invoke f args kwargs))"

text \<open>\<^verbatim>\<open>f(a, b, k=c)\<close>: the callee first, then the arguments left to right, then the call.\<close>

definition invoke :: "lib \<Rightarrow> val py \<Rightarrow> val py list \<Rightarrow> (string \<times> val py) list \<Rightarrow> val py" where
  "invoke L f args kwargs =
     bnd f (\<lambda>fv. bnd (eval_all args) (\<lambda>vs. bnd (eval_kw kwargs) (\<lambda>kvs. call_value L fv vs kvs)))"

text \<open>\<^verbatim>\<open>*v\<close> in an argument list, and the right-hand side of a tuple assignment.\<close>

definition unpack :: "lib \<Rightarrow> val \<Rightarrow> val list py" where
  "unpack L v =
     (case v of
        VTuple xs \<Rightarrow> ret xs
      | VList xs \<Rightarrow> ret xs
      | _ \<Rightarrow> (\<lambda>s. let r = items L (trace s) v
                  in (map_sum id (map VObj) r, s\<lparr>trace := trace s @ [Iterated v r]\<rparr>)))"

text \<open>\<^verbatim>\<open>f(*v)\<close>\<close>

definition invoke_star :: "lib \<Rightarrow> val py \<Rightarrow> val py \<Rightarrow> val py" where
  "invoke_star L f arg =
     bnd f (\<lambda>fv. bnd arg (\<lambda>v. bnd (unpack L v) (\<lambda>vs. call_value L fv vs [])))"

definition py_range :: "lib \<Rightarrow> val \<Rightarrow> val list py" where
  "py_range L v =
     (case v of
        VInt n \<Rightarrow> ret (map (\<lambda>i. VInt (int i)) [0 ..< nat n])
      | _ \<Rightarrow> bnd (ecall L (Builtin ''range'' [v])) (unpack L))"

text \<open>\<^verbatim>\<open>for x in <values>: body\<close>\<close>

fun for_each :: "string \<Rightarrow> val list \<Rightarrow> unit py \<Rightarrow> unit py" where
  "for_each x [] body = ret ()"
| "for_each x (v # vs) body = seq (assign x v) (seq body (for_each x vs body))"

text \<open>
  \<^verbatim>\<open>with <manager> as x: body\<close> (\<open>x = None\<close>: no \<^verbatim>\<open>as\<close> clause). The manager is
  entered, the body runs, and \<^verbatim>\<open>__exit__\<close> is called whether or not the body raised.
  When the body raised \<open>e\<close>, the exception that leaves the statement is the one
  \<^verbatim>\<open>__exit__\<close> raises if it raises, none if it returns a true value, and \<open>e\<close> otherwise.
\<close>

definition exit_with :: "lib \<Rightarrow> val \<Rightarrow> exn \<Rightarrow> unit py" where
  "exit_with L mgr e =
     (\<lambda>s. let r = exit_exc L (trace s) mgr e;
               s' = s\<lparr>trace := trace s @ [Exited mgr e r]\<rparr>
           in case r of
                Inl e' \<Rightarrow> (Inl e', s')
              | Inr swallow \<Rightarrow> if swallow then (Inr (), s') else (Inl e, s'))"

definition with_block :: "lib \<Rightarrow> val py \<Rightarrow> string option \<Rightarrow> unit py \<Rightarrow> unit py" where
  "with_block L mgr x body =
     bnd mgr (\<lambda>m.
     bnd (ecall L (Enter m)) (\<lambda>v.
     seq (case x of None \<Rightarrow> ret () | Some n \<Rightarrow> assign n v)
     (\<lambda>s. case body s of
             (Inr _, s') \<Rightarrow> discard (ecall L (Exit m)) s'
           | (Inl e, s') \<Rightarrow> exit_with L m e s')))"

text \<open>The value of a cell's last expression statement is shown by the notebook, unless it is \<open>None\<close>.\<close>

definition display :: "lib \<Rightarrow> val py \<Rightarrow> unit py" where
  "display L m = bnd m (\<lambda>v. if v = VNone then ret () else discard (ecall L (Display v)))"

text \<open>A suite of statements.\<close>

fun block :: "unit py list \<Rightarrow> unit py" where
  "block [] = ret ()"
| "block (m # ms) = seq m (block ms)"

text \<open>\<^verbatim>\<open><expression>.a\<close>\<close>

definition attr :: "lib \<Rightarrow> val py \<Rightarrow> string \<Rightarrow> val py" where
  "attr L m a = bnd m (\<lambda>v. getattr L v a)"

text \<open>\<^verbatim>\<open><expression>[<key>]\<close>\<close>

definition item :: "lib \<Rightarrow> val py \<Rightarrow> val py \<Rightarrow> val py" where
  "item L m k = bnd m (\<lambda>v. bnd k (\<lambda>kv. subscript L v kv))"

text \<open>
  \<^verbatim>\<open><target>.a = <rhs>\<close>: the right-hand side first, then the target, then the store.
  When the target is a name, the name is bound to the updated object.
\<close>

definition set_attr :: "lib \<Rightarrow> val py \<Rightarrow> string \<Rightarrow> val py \<Rightarrow> unit py" where
  "set_attr L target a rhs = bnd rhs (\<lambda>v. bnd target (\<lambda>t. discard (store_attr L t a v)))"

definition set_attr_of_name :: "lib \<Rightarrow> string \<Rightarrow> string \<Rightarrow> val py \<Rightarrow> unit py" where
  "set_attr_of_name L x a rhs = bnd rhs (\<lambda>v. bnd (load x) (\<lambda>t. bnd (store_attr L t a v) (assign x)))"

text \<open>\<^verbatim>\<open>{<key>: <value>}\<close>: the key first, then the value (Python 3.5).\<close>

definition dict1 :: "val py \<Rightarrow> val py \<Rightarrow> val py" where
  "dict1 k v = bnd k (\<lambda>kv. bnd v (\<lambda>vv. ret (VDict [(kv, vv)])))"

text \<open>\<^verbatim>\<open>(<a>, <b>)\<close> and \<^verbatim>\<open>[<a>, ...]\<close>\<close>

definition tuple_of :: "val py list \<Rightarrow> val py" where
  "tuple_of ms = bnd (eval_all ms) (\<lambda>vs. ret (VTuple vs))"

definition list_of :: "val py list \<Rightarrow> val py" where
  "list_of ms = bnd (eval_all ms) (\<lambda>vs. ret (VList vs))"

text \<open>
  \<^verbatim>\<open>xs.append(<argument>)\<close> for a list bound to the name \<open>x\<close>: the method is looked up, the
  argument is evaluated, and the list grows by one element in place. The list has no alias
  in the notebooks, so growing it is binding the name to the longer list.
\<close>

definition append_to :: "lib \<Rightarrow> string \<Rightarrow> val py \<Rightarrow> unit py" where
  "append_to L x arg =
     bnd (load x) (\<lambda>l.
       case l of
         VList xs \<Rightarrow> bnd arg (\<lambda>v. assign x (VList (xs @ [v])))
       | _ \<Rightarrow> discard (invoke L (getattr L l ''append'') [arg] []))"

text \<open>\<^verbatim>\<open>a, b = <rhs>\<close>\<close>

definition assign2 :: "lib \<Rightarrow> string \<Rightarrow> string \<Rightarrow> val py \<Rightarrow> unit py" where
  "assign2 L a b rhs =
     bnd rhs (\<lambda>v. bnd (unpack L v) (\<lambda>vs.
       case vs of
         [x, y] \<Rightarrow> seq (assign a x) (assign b y)
       | _ \<Rightarrow> raise ValueError))"

text \<open>\<^verbatim>\<open>for x in range(<n>): body\<close>\<close>

definition for_range :: "lib \<Rightarrow> string \<Rightarrow> val py \<Rightarrow> unit py \<Rightarrow> unit py" where
  "for_range L x n body = bnd n (\<lambda>nv. bnd (py_range L nv) (\<lambda>vs. for_each x vs body))"

section \<open>Notebook 1: representing a scalar\<close>

text \<open>Each code cell of the document is one definition, in the document's order.\<close>

definition scalars_setup :: "lib \<Rightarrow> unit py" where
  "scalars_setup L = block [
     bind_name ''np'' (ecall L (Import ''numpy'')),
     bind_name ''plt'' (ecall L (Import ''matplotlib.pyplot'')),
     discard (ecall L (Magic ''matplotlib inline'')),
     bind_name ''nengo'' (ecall L (Import ''nengo'')),
     bind_name ''Uniform'' (ecall L (ImportFrom ''nengo.dists'' ''Uniform'')),
     bind_name ''rasterplot'' (ecall L (ImportFrom ''nengo.utils.matplotlib'' ''rasterplot'')),
     bind_name ''tuning_curves'' (ecall L (ImportFrom ''nengo.utils.ensemble'' ''tuning_curves''))]"

text \<open>\<^verbatim>\<open>lambda t: np.sin(16 * t)\<close>\<close>

definition input_lambda :: val where
  "input_lambda = VLambda ''t'' (CallE (AttrE (Name ''np'') ''sin'') (MulE (IntE 16) (Name ''t'')))"

definition scalars_model :: "lib \<Rightarrow> unit py" where
  "scalars_model L = block [
     bind_name ''model''
       (invoke L (attr L (load ''nengo'') ''Network'') [] [(''label'', ret (VStr ''Many Neurons''))]),
     with_block L (load ''model'') None (block [
       bind_name ''input'' (invoke L (attr L (load ''nengo'') ''Node'') [ret input_lambda] []),
       bind_name ''x''
         (invoke L (attr L (load ''nengo'') ''Ensemble'') [ret (VInt 100)]
            [(''dimensions'', ret (VInt 1)),
             (''max_rates'', invoke L (load ''Uniform'') [ret (VInt 100), ret (VInt 200)] [])]),
       discard (invoke L (attr L (load ''nengo'') ''Connection'') [load ''input'', load ''x''] [])])]"

definition scalars_viz :: "lib \<Rightarrow> unit py" where
  "scalars_viz L = block [
     bind_name ''IPythonViz'' (ecall L (ImportFrom ''nengo_gui.ipython'' ''IPythonViz'')),
     display L (invoke L (load ''IPythonViz'') [load ''model'', ret (VStr ''ch2-scalars.py.cfg'')] [])]"

definition scalars_image :: "lib \<Rightarrow> unit py" where
  "scalars_image L = block [
     bind_name ''Image'' (ecall L (ImportFrom ''IPython.display'' ''Image'')),
     display L (invoke L (load ''Image'') [] [(''filename'', ret (VStr ''ch2-scalars.png''))])]"

definition scalars_simulate :: "lib \<Rightarrow> unit py" where
  "scalars_simulate L = block [
     with_block L (invoke L (attr L (load ''nengo'') ''Simulator'') [load ''model''] []) (Some ''sim'')
       (block [
          discard (invoke L (attr L (load ''sim'') ''run'') [ret (VInt 1)] [])])]"

text \<open>\<^verbatim>\<open>plt.plot(*tuning_curves(x, sim))\<close>\<close>

definition plot_tuning_curves :: "lib \<Rightarrow> unit py" where
  "plot_tuning_curves L =
     discard (invoke_star L (attr L (load ''plt'') ''plot'')
                (invoke L (load ''tuning_curves'') [load ''x'', load ''sim''] []))"

text \<open>The two labelling statements that end three cells; the closing semicolon keeps the value from being shown.\<close>

definition label_axes :: "lib \<Rightarrow> unit py list" where
  "label_axes L = [
     discard (invoke L (attr L (load ''plt'') ''ylabel'') [ret (VStr ''Firing rate (Hz)'')] []),
     discard (invoke L (attr L (load ''plt'') ''xlabel'') [ret (VStr ''Input scalar, x'')] [])]"

definition scalars_curves :: "lib \<Rightarrow> unit py" where
  "scalars_curves L = block (
     [discard (invoke L (attr L (load ''plt'') ''figure'') [] []),
      plot_tuning_curves L] @ label_axes L)"

definition scalars_intercepts :: "lib \<Rightarrow> unit py" where
  "scalars_intercepts L = block (
     [bind_name ''Choice'' (ecall L (ImportFrom ''nengo.dists'' ''Choice'')),
      set_attr_of_name L ''x'' ''intercepts''
        (invoke L (load ''Choice'') [list_of [ret (VFloat (- 0.2))]] []),
      with_block L (invoke L (attr L (load ''nengo'') ''Simulator'') [load ''model''] []) (Some ''sim'')
        (block [plot_tuning_curves L])] @ label_axes L)"

definition scalars_encoders :: "lib \<Rightarrow> unit py" where
  "scalars_encoders L = block (
     [set_attr_of_name L ''x'' ''encoders''
        (invoke L (load ''Choice'') [list_of [list_of [ret (VInt 1)]]] []),
      with_block L (invoke L (attr L (load ''nengo'') ''Simulator'') [load ''model''] []) (Some ''sim'')
        (block [plot_tuning_curves L]),
      plot_tuning_curves L] @ label_axes L)"

definition scalars_cells :: "lib \<Rightarrow> unit py list" where
  "scalars_cells L = [scalars_setup L, scalars_model L, scalars_viz L, scalars_image L,
     scalars_simulate L, scalars_curves L, scalars_intercepts L, scalars_encoders L]"

section \<open>Notebook 2: training an autoencoder with TensorNodes\<close>

definition autoenc_setup :: "lib \<Rightarrow> unit py" where
  "autoenc_setup L = block [
     discard (ecall L (Magic ''matplotlib inline'')),
     bind_name ''nengo'' (ecall L (Import ''nengo'')),
     bind_name ''nengo_dl'' (ecall L (Import ''nengo_dl'')),
     bind_name ''np'' (ecall L (Import ''numpy'')),
     bind_name ''tf'' (ecall L (Import ''tensorflow'')),
     bind_name ''plt'' (ecall L (Import ''matplotlib.pyplot''))]"

definition autoenc_mnist :: "lib \<Rightarrow> unit py" where
  "autoenc_mnist L = block [
     bind_name ''input_data''
       (ecall L (ImportFrom ''tensorflow.examples.tutorials.mnist'' ''input_data'')),
     bind_name ''mnist''
       (invoke L (attr L (load ''input_data'') ''read_data_sets'') [ret (VStr ''MNIST_data'')]
          [(''one_hot'', ret (VBool True))])]"

definition autoenc_parameters :: "unit py" where
  "autoenc_parameters = block [
     assign ''n_hidden_1'' (VInt 128),
     assign ''n_hidden_2'' (VInt 36),
     assign ''n_input'' (VInt 784)]"

subsection \<open>The two TensorNode classes\<close>

text \<open>
  A class is its name, its bases and its methods (name and parameters, in the order of the
  source); the bodies of the methods are the functions below. The framework calls them, not
  the notebook: \<^verbatim>\<open>pre_build\<close> once when the simulator is built, \<^verbatim>\<open>__call__\<close> to get the
  node's output. \<^verbatim>\<open>self\<close>, the parameters and \<^verbatim>\<open>dense\<close> are local variables; the layer
  sizes and \<^verbatim>\<open>tf\<close> are read from the global namespace when the method runs.
\<close>

definition Encoder_class :: pyclass where
  "Encoder_class = \<lparr>cls_name = ''Encoder'', cls_bases = [''object''],
     cls_methods = [(''pre_build'', [''self'', ''shape_in'', ''shape_out'']),
                    (''__call__'', [''self'', ''t'', ''x''])]\<rparr>"

definition Decoder_class :: pyclass where
  "Decoder_class = \<lparr>cls_name = ''Decoder'', cls_bases = [''object''],
     cls_methods = [(''pre_build'', [''self'', ''shape_in'', ''shape_out'']),
                    (''__call__'', [''self'', ''t'', ''x''])]\<rparr>"

text \<open>
  \<^verbatim>\<open>pre_build\<close> stores three attributes on \<^verbatim>\<open>self\<close> and returns \<open>None\<close>; the model
  returns the instance as the stores leave it.
\<close>

definition Encoder_pre_build :: "lib \<Rightarrow> val \<Rightarrow> val \<Rightarrow> val \<Rightarrow> val py" where
  "Encoder_pre_build L self shape_in shape_out =
     bnd (bnd (subscript L shape_in (VInt 0)) (store_attr L self ''n_mini'')) (\<lambda>self.
     bnd (bnd (subscript L shape_in (VInt 1)) (store_attr L self ''size_in'')) (\<lambda>self.
     bnd (subscript L shape_out (VInt 1)) (store_attr L self ''size_out'')))"

definition Decoder_pre_build :: "lib \<Rightarrow> val \<Rightarrow> val \<Rightarrow> val \<Rightarrow> val py" where
  "Decoder_pre_build L self shape_in shape_out =
     bnd (bnd (subscript L shape_in (VInt 0)) (store_attr L self ''n_mini'')) (\<lambda>self.
     bnd (bnd (subscript L shape_in (VInt 1)) (store_attr L self ''size_in'')) (\<lambda>self.
     bnd (subscript L shape_out (VInt 1)) (store_attr L self ''size_out'')))"

text \<open>\<^verbatim>\<open>tf.contrib.layers.fully_connected(<x>, <n>)\<close>\<close>

definition fully_connected :: "lib \<Rightarrow> val py \<Rightarrow> val py \<Rightarrow> val py" where
  "fully_connected L x n =
     invoke L (attr L (attr L (attr L (load ''tf'') ''contrib'') ''layers'') ''fully_connected'')
       [x, n] []"

definition Encoder_call :: "lib \<Rightarrow> val \<Rightarrow> val \<Rightarrow> val \<Rightarrow> val py" where
  "Encoder_call L self t x =
     bnd (fully_connected L (ret x) (load ''n_hidden_1'')) (\<lambda>dense.
     bnd (fully_connected L (ret dense) (load ''n_hidden_2'')) (\<lambda>dense.
     ret dense))"

definition Decoder_call :: "lib \<Rightarrow> val \<Rightarrow> val \<Rightarrow> val \<Rightarrow> val py" where
  "Decoder_call L self t x =
     bnd (fully_connected L (ret x) (load ''n_hidden_1'')) (\<lambda>dense.
     bnd (fully_connected L (ret dense) (getattr L self ''size_out'')) (\<lambda>dense.
     ret dense))"

text \<open>
  Calling a lambda: the parameter is local, every other name is global.
\<close>

fun eval_expr :: "lib \<Rightarrow> (string \<rightharpoonup> val) \<Rightarrow> expr \<Rightarrow> val py" where
  "eval_expr L env (Name x) = (case env x of Some v \<Rightarrow> ret v | None \<Rightarrow> load x)"
| "eval_expr L env (IntE n) = ret (VInt n)"
| "eval_expr L env (AttrE e a) = attr L (eval_expr L env e) a"
| "eval_expr L env (MulE a b) =
     bnd (eval_expr L env a) (\<lambda>x. bnd (eval_expr L env b) (\<lambda>y. py_mul L x y))"
| "eval_expr L env (CallE f a) = invoke L (eval_expr L env f) [eval_expr L env a] []"

definition apply_lambda :: "lib \<Rightarrow> val \<Rightarrow> val \<Rightarrow> val py" where
  "apply_lambda L f v =
     (case f of
        VLambda p body \<Rightarrow> eval_expr L [p \<mapsto> v] body
      | _ \<Rightarrow> call_value L f [v] [])"

subsection \<open>The remaining cells\<close>

text \<open>\<^verbatim>\<open>net.config[nengo.<kind>]\<close>\<close>

definition net_config :: "lib \<Rightarrow> string \<Rightarrow> val py" where
  "net_config L kind = item L (attr L (load ''net'') ''config'') (attr L (load ''nengo'') kind)"

definition make_tf_encode :: "lib \<Rightarrow> val py" where
  "make_tf_encode L =
     invoke L (attr L (load ''nengo_dl'') ''TensorNode'') [invoke L (load ''Encoder'') [] []]
       [(''size_in'', load ''n_input''), (''size_out'', load ''n_hidden_2''),
        (''label'', ret (VStr ''H1''))]"

definition make_tf_decode :: "lib \<Rightarrow> val py" where
  "make_tf_decode L =
     invoke L (attr L (load ''nengo_dl'') ''TensorNode'') [invoke L (load ''Decoder'') [] []]
       [(''size_in'', load ''n_hidden_2''), (''size_out'', load ''n_input''),
        (''label'', ret (VStr ''H2''))]"

definition autoenc_network :: "lib \<Rightarrow> unit py" where
  "autoenc_network L = block [
     assign ''Encoder'' (VClass Encoder_class),
     assign ''Decoder'' (VClass Decoder_class),
     with_block L (invoke L (attr L (load ''nengo'') ''Network'') [] []) (Some ''net'') (block [
       set_attr L (net_config L ''Connection'') ''synapse'' (ret VNone),
       set_attr L (net_config L ''Ensemble'') ''neuron_type''
         (invoke L (attr L (load ''nengo'') ''RectifiedLinear'') [] []),
       set_attr L (net_config L ''Ensemble'') ''gain''
         (invoke L (attr L (attr L (load ''nengo'') ''dists'') ''Choice'') [list_of [ret (VInt 1)]] []),
       set_attr L (net_config L ''Ensemble'') ''bias''
         (invoke L (attr L (attr L (load ''nengo'') ''dists'') ''Choice'') [list_of [ret (VInt 0)]] []),
       bind_name ''inp''
         (invoke L (attr L (load ''nengo'') ''Node'')
            [invoke L (attr L (attr L (load ''nengo'') ''processes'') ''PresentInput'')
               [attr L (attr L (load ''mnist'') ''test'') ''images'', ret (VFloat 0.001)] []] []),
       bind_name ''tf_encode'' (make_tf_encode L),
       bind_name ''tf_decode'' (make_tf_decode L),
       discard (invoke L (attr L (load ''nengo'') ''Connection'') [load ''inp'', load ''tf_encode''] []),
       discard (invoke L (attr L (load ''nengo'') ''Connection'') [load ''tf_encode'', load ''tf_decode''] []),
       bind_name ''input_probe'' (invoke L (attr L (load ''nengo'') ''Probe'') [load ''inp''] []),
       bind_name ''encode_probe'' (invoke L (attr L (load ''nengo'') ''Probe'') [load ''tf_encode''] []),
       bind_name ''decode_probe'' (invoke L (attr L (load ''nengo'') ''Probe'') [load ''tf_decode''] [])])]"

text \<open>The subscript \<^verbatim>\<open>[:, None, :]\<close>\<close>

definition add_axis :: val where
  "add_axis = VTuple [VSlice VNone VNone VNone, VNone, VSlice VNone VNone VNone]"

definition autoenc_data :: "lib \<Rightarrow> unit py" where
  "autoenc_data L = block [
     bind_name ''train_inputs''
       (dict1 (load ''inp'') (item L (attr L (attr L (load ''mnist'') ''train'') ''images'') (ret add_axis))),
     bind_name ''train_targets''
       (dict1 (load ''decode_probe'') (item L (load ''train_inputs'') (load ''inp''))),
     bind_name ''test_inputs''
       (dict1 (load ''inp'') (item L (attr L (attr L (load ''mnist'') ''test'') ''images'') (ret add_axis))),
     bind_name ''test_targets''
       (dict1 (load ''decode_probe'') (item L (load ''test_inputs'') (load ''inp'')))]"

text \<open>\<^verbatim>\<open>sim.step(input_feeds={inp: test_inputs[inp][:n_examples]})\<close>\<close>

definition step_on_test_inputs :: "lib \<Rightarrow> unit py" where
  "step_on_test_inputs L =
     discard (invoke L (attr L (load ''sim'') ''step'') []
       [(''input_feeds'',
         dict1 (load ''inp'')
           (item L (item L (load ''test_inputs'') (load ''inp''))
              (bnd (load ''n_examples'') (\<lambda>n. ret (VSlice VNone n VNone)))))])"

text \<open>The body of the training loop.\<close>

definition train_pass :: "lib \<Rightarrow> unit py" where
  "train_pass L = block [
     append_to L ''losses''
       (invoke L (attr L (load ''sim'') ''loss'')
          [load ''test_inputs'', load ''test_targets'', ret (VStr ''mse'')] []),
     bnd (load ''losses'') (\<lambda>v. discard (ecall L (Builtin ''print'' [v]))),
     step_on_test_inputs L,
     discard (invoke L (attr L (load ''sim'') ''train'')
                [load ''train_inputs'', load ''train_targets'', load ''optimizer''] [])]"

text \<open>
  \<^verbatim>\<open>nengo_dl.Simulator(net, minibatch_size=n_examples, device="/cpu:0")\<close>
\<close>

definition new_simulator :: "lib \<Rightarrow> val py" where
  "new_simulator L =
     invoke L (attr L (load ''nengo_dl'') ''Simulator'') [load ''net'']
       [(''minibatch_size'', load ''n_examples''), (''device'', ret (VStr ''/cpu:0''))]"

text \<open>The body of the \<^verbatim>\<open>with\<close> statement of the training cell.\<close>

definition train_body :: "lib \<Rightarrow> unit py" where
  "train_body L = block [
     bind_name ''optimizer''
       (invoke L (attr L (attr L (load ''tf'') ''train'') ''MomentumOptimizer'')
          [load ''learning_rate'', ret (VFloat 0.9)] []),
     for_range L ''e'' (load ''repetitions'') (train_pass L),
     step_on_test_inputs L]"

definition autoenc_train :: "lib \<Rightarrow> unit py" where
  "autoenc_train L = block [
     assign ''n_examples'' (VInt 100),
     assign ''losses'' (VList []),
     assign ''learning_rate'' (VFloat 0.05),
     assign ''repetitions'' (VInt 5),
     with_block L (new_simulator L) (Some ''sim'') (train_body L)]"

text \<open>\<^verbatim>\<open>repetitions+1\<close>\<close>

definition repetitions_plus_1 :: "lib \<Rightarrow> val py" where
  "repetitions_plus_1 L = bnd (load ''repetitions'') (\<lambda>r. py_add L r (VInt 1))"

text \<open>
  \<^verbatim>\<open>axis[<row>][i].imshow(np.reshape(sim.data[<probe>][0, i], (<h>, <w>)))\<close>
\<close>

definition show_image :: "lib \<Rightarrow> int \<Rightarrow> string \<Rightarrow> int \<Rightarrow> unit py" where
  "show_image L row probe side =
     discard (invoke L (attr L (item L (item L (load ''axis'') (ret (VInt row))) (load ''i'')) ''imshow'')
       [invoke L (attr L (load ''np'') ''reshape'')
          [item L (item L (attr L (load ''sim'') ''data'') (load probe))
             (tuple_of [ret (VInt 0), load ''i'']),
           ret (VTuple [VInt side, VInt side])] []] [])"

definition autoenc_plot :: "lib \<Rightarrow> unit py" where
  "autoenc_plot L = block [
     assign2 L ''figure'' ''axis''
       (invoke L (attr L (load ''plt'') ''subplots'') [ret (VInt 3), repetitions_plus_1 L]
          [(''figsize'', ret (VTuple [VInt 10, VInt 5]))]),
     for_range L ''i'' (repetitions_plus_1 L) (block [
       show_image L 0 ''input_probe'' 28,
       show_image L 1 ''encode_probe'' 6,
       show_image L 2 ''decode_probe'' 28])]"

text \<open>The last code cell of the document is empty.\<close>

definition autoenc_empty :: "unit py" where
  "autoenc_empty = block []"

definition autoenc_cells :: "lib \<Rightarrow> unit py list" where
  "autoenc_cells L = [autoenc_setup L, autoenc_mnist L, autoenc_parameters, autoenc_network L,
     autoenc_data L, autoenc_train L, autoenc_plot L, autoenc_empty]"

section \<open>The notebook documents\<close>

text \<open>
  The source file holds two notebook documents, one after the other. Each is a JSON value;
  the two values are written out below as they stand in the file, key by key and line by line.
\<close>

datatype json =
    JNull
  | JBool bool
  | JNum int
  | JStr string
  | JArr "json list"
  | JObj "(string \<times> json) list"

definition scalars_ipynb_cells :: "json list" where
  "scalars_ipynb_cells = [
    JObj [
      (''cell_type'', JStr ''markdown''),
      (''metadata'', JObj []),
      (''source'', JArr [
        JStr ''# Representing a scalar\<newline>'',
        JStr ''\<newline>'',
        JStr ''You can construct and manipulate a population of neurons (ensemble) in nengo. This model shows shows how the activity of neural populations can be thought of as representing a mathematical variable (a scalar value). ''])],
    JObj [
      (''cell_type'', JStr ''code''),
      (''execution_count'', JNull),
      (''metadata'', JObj [
        (''collapsed'', JBool False)]),
      (''outputs'', JArr []),
      (''source'', JArr [
        JStr ''# Setup the environment\<newline>'',
        JStr ''import numpy as np\<newline>'',
        JStr ''import matplotlib.pyplot as plt\<newline>'',
        JStr ''%matplotlib inline\<newline>'',
        JStr ''\<newline>'',
        JStr ''import nengo\<newline>'',
        JStr ''from nengo.dists import Uniform\<newline>'',
        JStr ''from nengo.utils.matplotlib import rasterplot\<newline>'',
        JStr ''from nengo.utils.ensemble import tuning_curves''])],
    JObj [
      (''cell_type'', JStr ''markdown''),
      (''metadata'', JObj []),
      (''source'', JArr [
        JStr ''## Create the Model\<newline>'',
        JStr ''\<newline>'',
        JStr ''This model has paramenters as described in the book and uses a single population (ensemble) of 100 LIF neurons. Note that the default max rates in Nengo 2.0 are (200, 400), so you have to explicitly specify them to be (100, 200) to create the model with the same parameters as described in the book. Moreover the 'Node Factory' feature of ensembles mentioned in the book maps to the 'neuron_type' in Nengo 2.0 which is set to LIF by default. The default values of tauRC, tauRef, radius and intercepts in Nengo 2.0 are the same as those mentioned in the book.''])],
    JObj [
      (''cell_type'', JStr ''code''),
      (''execution_count'', JNull),
      (''metadata'', JObj [
        (''collapsed'', JBool False)]),
      (''outputs'', JArr []),
      (''source'', JArr [
        JStr ''model = nengo.Network(label='Many Neurons')\<newline>'',
        JStr ''with model:\<newline>'',
        JStr ''    # Input\<newline>'',
        JStr ''    input = nengo.Node(lambda t: np.sin(16 * t))      # Input sine wave with range 1\<newline>'',
        JStr ''    # input = nengo.Node(lambda t: 4*np.sin(16 * t))   # Input sine wave with range increased to 4\<newline>'',
        JStr ''    \<newline>'',
        JStr ''    # Ensemble with 100 LIF neurons  \<newline>'',
        JStr ''    x = nengo.Ensemble(100, dimensions=1, max_rates = Uniform(100, 200))\<newline>'',
        JStr ''    \<newline>'',
        JStr ''    # Connecting input to ensemble\<newline>'',
        JStr ''    nengo.Connection(input, x) ''])],
    JObj [
      (''cell_type'', JStr ''markdown''),
      (''metadata'', JObj []),
      (''source'', JArr [
        JStr ''## Run the model''])],
    JObj [
      (''cell_type'', JStr ''markdown''),
      (''metadata'', JObj []),
      (''source'', JArr [
        JStr ''Import the nengo_gui visualizer to run and visualize the model.''])],
    JObj [
      (''cell_type'', JStr ''code''),
      (''execution_count'', JNull),
      (''metadata'', JObj [
        (''collapsed'', JBool False)]),
      (''outputs'', JArr []),
      (''source'', JArr [
        JStr ''from nengo_gui.ipython import IPythonViz\<newline>'',
        JStr ''IPythonViz(model, \"ch2-scalars.py.cfg\")''])],
    JObj [
      (''cell_type'', JStr ''markdown''),
      (''metadata'', JObj []),
      (''source'', JArr [
        JStr ''Press the play button in the visualizer to run the simulation. You should see the graphs as shown in the figure below.\<newline>'',
        JStr ''\<newline>'',
        JStr ''The graph on the top left shows the input and the graph on the top right shows the the decoded value of the neural spiking (a linearly decoded estimate of the input). The graph on the bottom right shows the spike raster which is the spiking output of the neuron population (x).''])],
    JObj [
      (''cell_type'', JStr ''code''),
      (''execution_count'', JNull),
      (''metadata'', JObj [
        (''collapsed'', JBool False)]),
      (''outputs'', JArr []),
      (''source'', JArr [
        JStr ''from IPython.display import Image\<newline>'',
        JStr ''Image(filename='ch2-scalars.png')''])],
    JObj [
      (''cell_type'', JStr ''markdown''),
      (''metadata'', JObj []),
      (''source'', JArr [
        JStr ''### Increasing the range of Input''])],
    JObj [
      (''cell_type'', JStr ''markdown''),
      (''metadata'', JObj []),
      (''source'', JArr [
        JStr ''You have seen that the population of neurons does a reasonably good job of representing the input. However, neurons cannot represent arbitrary values well and you can verify this by increasing the range of the input to 4 ( input = nengo.Node(lambda t: 4*np.sin(16 * t)) ). You will observe the same saturation effects as described in the book, showing that the neurons do a much better job at representing information within the defined radius.''])],
    JObj [
      (''cell_type'', JStr ''markdown''),
      (''metadata'', JObj []),
      (''source'', JArr [
        JStr ''### Plotting the Tuninig Curves''])],
    JObj [
      (''cell_type'', JStr ''markdown''),
      (''metadata'', JObj []),
      (''source'', JArr [
        JStr ''The tuning curve of a neurons tells us how it responds to an incoming input signal. Looking at the tuning curves of the neurons in an ensemble is one of the most common ways to debug failures in a model. \<newline>'',
        JStr ''\<newline>'',
        JStr ''For a one-dimensional ensemble, since the input is a scalar, we can use the input as x-axis and the neuron response as y-axis.''])],
    JObj [
      (''cell_type'', JStr ''code''),
      (''execution_count'', JNull),
      (''metadata'', JObj [
        (''collapsed'', JBool False)]),
      (''outputs'', JArr []),
      (''source'', JArr [
        JStr ''# Alternative way to run the model\<newline>'',
        JStr ''with nengo.Simulator(model) as sim: # Create the simulator\<newline>'',
        JStr ''    sim.run(1)                      # Run the simulation for 1 second''])],
    JObj [
      (''cell_type'', JStr ''code''),
      (''execution_count'', JNull),
      (''metadata'', JObj [
        (''collapsed'', JBool False)]),
      (''outputs'', JArr []),
      (''source'', JArr [
        JStr ''# Plot the tuning curves of the ensemble\<newline>'',
        JStr ''plt.figure()\<newline>'',
        JStr ''plt.plot(*tuning_curves(x, sim))\<newline>'',
        JStr ''plt.ylabel(\"Firing rate (Hz)\")\<newline>'',
        JStr ''plt.xlabel(\"Input scalar, x\");''])],
    JObj [
      (''cell_type'', JStr ''markdown''),
      (''metadata'', JObj []),
      (''source'', JArr [
        JStr ''If there is some biological or functional reason to impose some pattern to the neuron responses, you can do so by changing the parameters of the ensemble.''])],
    JObj [
      (''cell_type'', JStr ''code''),
      (''execution_count'', JNull),
      (''metadata'', JObj [
        (''collapsed'', JBool False)]),
      (''outputs'', JArr []),
      (''source'', JArr [
        JStr ''from nengo.dists import Choice\<newline>'',
        JStr ''x.intercepts = Choice([-0.2])  # change the intercept of all neurons -0.2\<newline>'',
        JStr ''\<newline>'',
        JStr ''with nengo.Simulator(model) as sim:\<newline>'',
        JStr ''    plt.plot(*tuning_curves(x, sim))\<newline>'',
        JStr ''plt.ylabel(\"Firing rate (Hz)\")\<newline>'',
        JStr ''plt.xlabel(\"Input scalar, x\");''])],
    JObj [
      (''cell_type'', JStr ''markdown''),
      (''metadata'', JObj []),
      (''source'', JArr [
        JStr ''Note that in the above figure, some neurons start firing at -0.2, while others stop firing at 0.2. This is because the input signal, x, is multipled by a neuron's encoder when it is converted to input current. You can also constrain the tuning curves by changing the encoders of the ensemble.''])],
    JObj [
      (''cell_type'', JStr ''code''),
      (''execution_count'', JNull),
      (''metadata'', JObj [
        (''collapsed'', JBool False)]),
      (''outputs'', JArr []),
      (''source'', JArr [
        JStr ''x.encoders = Choice([[1]])  # change the encoder of all neurons to [1]\<newline>'',
        JStr ''\<newline>'',
        JStr ''with nengo.Simulator(model) as sim:\<newline>'',
        JStr ''    plt.plot(*tuning_curves(x, sim))\<newline>'',
        JStr ''plt.plot(*tuning_curves(x, sim))\<newline>'',
        JStr ''plt.ylabel(\"Firing rate (Hz)\")\<newline>'',
        JStr ''plt.xlabel(\"Input scalar, x\");''])],
    JObj [
      (''cell_type'', JStr ''markdown''),
      (''metadata'', JObj []),
      (''source'', JArr [
        JStr ''This gives us an ensemble of neurons that respond very predictably to input. In some cases, this is important for the proper functioning of a model, or to match what we know about the physiology of a brain area or neuron type.''])]]"

definition scalars_ipynb :: json where
  "scalars_ipynb = JObj [
    (''cells'', JArr scalars_ipynb_cells),
    (''metadata'', JObj [
      (''kernelspec'', JObj [
        (''display_name'', JStr ''Python 2''),
        (''language'', JStr ''python''),
        (''name'', JStr ''python2'')]),
      (''language_info'', JObj [
        (''codemirror_mode'', JObj [
          (''name'', JStr ''ipython''),
          (''version'', JNum 2)]),
        (''file_extension'', JStr ''.py''),
        (''mimetype'', JStr ''text/x-python''),
        (''name'', JStr ''python''),
        (''nbconvert_exporter'', JStr ''python''),
        (''pygments_lexer'', JStr ''ipython2''),
        (''version'', JStr ''2.7.10'')]),
      (''widgets'', JObj [
        (''state'', JObj []),
        (''version'', JStr ''1.1.2'')])]),
    (''nbformat'', JNum 4),
    (''nbformat_minor'', JNum 0)]"

definition autoenc_ipynb_cells :: "json list" where
  "autoenc_ipynb_cells = [
    JObj [
      (''cell_type'', JStr ''markdown''),
      (''metadata'', JObj []),
      (''source'', JArr [
        JStr ''## Training an Autoencoder With TensorNodes\<newline>'',
        JStr ''\<newline>'',
        JStr ''When working with TensorNodes you can train them just like normal parts of a Nengo model. The only deviation from the standard procedure is the definition of the custom classes which encapsulate the TensorFlow portions. \<newline>'',
        JStr ''\<newline>'',
        JStr (''In this example we will illustrate this trainability by training an autoencoder on the MNIST dataset. The autoencoder takes the input in with a dimensionality of `784` (28'' @ [CHR 0x5C] @ ''*28) and reduces it to a dimensionality of `36`. This is the encoding phase where the network is effectively compressing the input. The decode phase then takes that `36` dimensional representation and attempts to reconstruct the original input with it.\<newline>''),
        JStr ''\<newline>'',
        JStr ''We show at the bottom of the notebook how the training changes the output. The output starts off as pure noise and gradually looks more and more like the input.''])],
    JObj [
      (''cell_type'', JStr ''code''),
      (''execution_count'', JNull),
      (''metadata'', JObj [
        (''collapsed'', JBool True)]),
      (''outputs'', JArr []),
      (''source'', JArr [
        JStr ''%matplotlib inline\<newline>'',
        JStr ''\<newline>'',
        JStr ''import nengo\<newline>'',
        JStr ''import nengo_dl\<newline>'',
        JStr ''import numpy as np\<newline>'',
        JStr ''import tensorflow as tf\<newline>'',
        JStr ''import matplotlib.pyplot as plt''])],
    JObj [
      (''cell_type'', JStr ''code''),
      (''execution_count'', JNull),
      (''metadata'', JObj []),
      (''outputs'', JArr []),
      (''source'', JArr [
        JStr ''# Import MNIST data\<newline>'',
        JStr ''from tensorflow.examples.tutorials.mnist import input_data\<newline>'',
        JStr ''mnist = input_data.read_data_sets(\"MNIST_data\", one_hot=True)''])],
    JObj [
      (''cell_type'', JStr ''markdown''),
      (''metadata'', JObj []),
      (''source'', JArr [
        JStr ''The network architecture consists of one input layer followed by 4 densely connected layers. The layers architecture is mirrored such that:\<newline>'',
        JStr ''\<newline>'',
        JStr ''```\<newline>'',
        JStr ''Layer 1: 784 Elements - Input\<newline>'',
        JStr ''Layer 2: 128 Elements - Encode 1\<newline>'',
        JStr ''Layer 3: 36 Elements - Encode 2\<newline>'',
        JStr ''Layer 4: 128 Elements - Decode 1\<newline>'',
        JStr ''Layer 5: 784 Elements - Decode 2/Output\<newline>'',
        JStr ''```''])],
    JObj [
      (''cell_type'', JStr ''code''),
      (''execution_count'', JNull),
      (''metadata'', JObj [
        (''collapsed'', JBool True)]),
      (''outputs'', JArr []),
      (''source'', JArr [
        JStr ''# Network Parameters\<newline>'',
        JStr ''n_hidden_1 = 128 # 1st layer num features\<newline>'',
        JStr ''n_hidden_2 = 36 # 2nd layer num features\<newline>'',
        JStr ''n_input = 784 # MNIST data input (img shape: 28*28)''])],
    JObj [
      (''cell_type'', JStr ''markdown''),
      (''metadata'', JObj []),
      (''source'', JArr [
        JStr ''The TensorNodes are broken up into two classes: an Encoder, which compresses the input, and a Decoder, which decompresses the output to attempt to recreate the original.\<newline>'',
        JStr ''\<newline>'',
        JStr ''Both of the TensorNode types consist of two fully connected (dense) layers which are in turn connected to each other''])],
    JObj [
      (''cell_type'', JStr ''code''),
      (''execution_count'', JNull),
      (''metadata'', JObj [
        (''collapsed'', JBool True)]),
      (''outputs'', JArr []),
      (''source'', JArr [
        JStr ''# Building the encoder\<newline>'',
        JStr ''class Encoder(object):\<newline>'',
        JStr ''    def pre_build(self, shape_in, shape_out):\<newline>'',
        JStr ''        self.n_mini = shape_in[0]\<newline>'',
        JStr ''        self.size_in = shape_in[1]\<newline>'',
        JStr ''        self.size_out = shape_out[1]\<newline>'',
        JStr ''        \<newline>'',
        JStr ''    \<newline>'',
        JStr ''    def __call__(self, t, x):    \<newline>'',
        JStr ''        dense = tf.contrib.layers.fully_connected(x, n_hidden_1)\<newline>'',
        JStr ''        dense = tf.contrib.layers.fully_connected(dense, n_hidden_2)\<newline>'',
        JStr ''\<newline>'',
        JStr ''        return dense\<newline>'',
        JStr ''\<newline>'',
        JStr ''\<newline>'',
        JStr ''# Building the encoder\<newline>'',
        JStr ''class Decoder(object):\<newline>'',
        JStr ''    def pre_build(self, shape_in, shape_out):\<newline>'',
        JStr ''        self.n_mini = shape_in[0]\<newline>'',
        JStr ''        self.size_in = shape_in[1]\<newline>'',
        JStr ''        self.size_out = shape_out[1]\<newline>'',
        JStr ''    \<newline>'',
        JStr ''    def __call__(self, t, x):    \<newline>'',
        JStr ''        dense = tf.contrib.layers.fully_connected(x, n_hidden_1)\<newline>'',
        JStr ''        dense = tf.contrib.layers.fully_connected(dense, self.size_out)\<newline>'',
        JStr ''\<newline>'',
        JStr ''        return dense\<newline>'',
        JStr ''\<newline>'',
        JStr ''\<newline>'',
        JStr ''with nengo.Network() as net:\<newline>'',
        JStr ''    net.config[nengo.Connection].synapse = None\<newline>'',
        JStr ''    net.config[nengo.Ensemble].neuron_type = nengo.RectifiedLinear()\<newline>'',
        JStr ''    net.config[nengo.Ensemble].gain = nengo.dists.Choice([1])\<newline>'',
        JStr ''    net.config[nengo.Ensemble].bias = nengo.dists.Choice([0])\<newline>'',
        JStr ''    \<newline>'',
        JStr ''     # create node to feed in images\<newline>'',
        JStr ''    inp = nengo.Node(nengo.processes.PresentInput(mnist.test.images, 0.001))\<newline>'',
        JStr ''    \<newline>'',
        JStr ''    # create TensorNodes to insert into the network\<newline>'',
        JStr ''    tf_encode = nengo_dl.TensorNode(Encoder(), size_in=n_input, size_out=n_hidden_2, label='H1')\<newline>'',
        JStr ''    tf_decode = nengo_dl.TensorNode(Decoder(), size_in=n_hidden_2, size_out=n_input, label='H2')\<newline>'',
        JStr ''    \<newline>'',
        JStr ''    # connecting all the nodes together\<newline>'',
        JStr ''    nengo.Connection(inp, tf_encode)\<newline>'',
        JStr ''    nengo.Connection(tf_encode, tf_decode)\<newline>'',
        JStr ''    \<newline>'',
        JStr ''    # defining probes\<newline>'',
        JStr ''    input_probe = nengo.Probe(inp)\<newline>'',
        JStr ''    encode_probe = nengo.Probe(tf_encode)\<newline>'',
        JStr ''    decode_probe = nengo.Probe(tf_decode)''])],
    JObj [
      (''cell_type'', JStr ''markdown''),
      (''metadata'', JObj []),
      (''source'', JArr [
        JStr ''Luckily for this network the training data for output and input are the same, therefore the same data can be used for both.''])],
    JObj [
      (''cell_type'', JStr ''code''),
      (''execution_count'', JNull),
      (''metadata'', JObj [
        (''collapsed'', JBool True)]),
      (''outputs'', JArr []),
      (''source'', JArr [
        JStr ''train_inputs = {inp: mnist.train.images[:, None, :]}\<newline>'',
        JStr ''train_targets = {decode_probe: train_inputs[inp]}\<newline>'',
        JStr ''test_inputs = {inp: mnist.test.images[:, None, :]}\<newline>'',
        JStr ''test_targets = {decode_probe: test_inputs[inp]}''])],
    JObj [
      (''cell_type'', JStr ''markdown''),
      (''metadata'', JObj []),
      (''source'', JArr [
        JStr ''We break the training up into single epochs so that we can visualize the effect of the training over time.''])],
    JObj [
      (''cell_type'', JStr ''code''),
      (''execution_count'', JNull),
      (''metadata'', JObj [
        (''collapsed'', JBool True),
        (''scrolled'', JBool True)]),
      (''outputs'', JArr []),
      (''source'', JArr [
        JStr ''n_examples = 100\<newline>'',
        JStr ''losses = []\<newline>'',
        JStr ''learning_rate = 0.05\<newline>'',
        JStr ''repetitions = 5\<newline>'',
        JStr ''with nengo_dl.Simulator(net, minibatch_size=n_examples, device=\"/cpu:0\") as sim:\<newline>'',
        JStr ''    optimizer = tf.train.MomentumOptimizer(learning_rate, 0.9)\<newline>'',
        JStr ''    \<newline>'',
        JStr ''    for e in range(repetitions):\<newline>'',
        JStr ''        losses.append(sim.loss(test_inputs, test_targets, 'mse'))\<newline>'',
        JStr ''        print(losses)\<newline>'',
        JStr ''        \<newline>'',
        JStr ''        sim.step(input_feeds={inp: test_inputs[inp][:n_examples]})\<newline>'',
        JStr ''        \<newline>'',
        JStr ''        sim.train(train_inputs, train_targets, optimizer)\<newline>'',
        JStr ''        \<newline>'',
        JStr ''    sim.step(input_feeds={inp: test_inputs[inp][:n_examples]})''])],
    JObj [
      (''cell_type'', JStr ''markdown''),
      (''metadata'', JObj []),
      (''source'', JArr [
        JStr ''The plot below shows the input on the top row, the compressed representation in the middle, and then the reconstructed output on the bottom. We can see that as training progresses (moving left to right) the reconstructions become more and more accurate. ''])],
    JObj [
      (''cell_type'', JStr ''code''),
      (''execution_count'', JNull),
      (''metadata'', JObj []),
      (''outputs'', JArr []),
      (''source'', JArr [
        JStr ''figure, axis = plt.subplots(3, repetitions+1, figsize=(10, 5))\<newline>'',
        JStr ''for i in range(repetitions+1):\<newline>'',
        JStr ''    axis[0][i].imshow(np.reshape(sim.data[input_probe][0, i], (28, 28)))\<newline>'',
        JStr ''    axis[1][i].imshow(np.reshape(sim.data[encode_probe][0, i], (6, 6)))\<newline>'',
        JStr ''    axis[2][i].imshow(np.reshape(sim.data[decode_probe][0, i], (28, 28)))''])],
    JObj [
      (''cell_type'', JStr ''code''),
      (''execution_count'', JNull),
      (''metadata'', JObj [
        (''collapsed'', JBool True)]),
      (''outputs'', JArr []),
      (''source'', JArr [])]]"

definition autoenc_ipynb :: json where
  "autoenc_ipynb = JObj [
    (''cells'', JArr autoenc_ipynb_cells),
    (''metadata'', JObj [
      (''kernelspec'', JObj [
        (''display_name'', JStr ''Python 3''),
        (''language'', JStr ''python''),
        (''name'', JStr ''python3'')]),
      (''language_info'', JObj [
        (''codemirror_mode'', JObj [
          (''name'', JStr ''ipython''),
          (''version'', JNum 3)]),
        (''file_extension'', JStr ''.py''),
        (''mimetype'', JStr ''text/x-python''),
        (''name'', JStr ''python''),
        (''nbconvert_exporter'', JStr ''python''),
        (''pygments_lexer'', JStr ''ipython3''),
        (''version'', JStr ''3.5.4'')])]),
    (''nbformat'', JNum 4),
    (''nbformat_minor'', JNum 2)]"

text \<open>
  The structure of a notebook document of format 4: an object with a list of cells, each an
  object with a cell type, a metadata object and its source lines; a metadata object that
  holds the kernel specification; and the format number.
\<close>

definition is_object :: "json \<Rightarrow> bool" where
  "is_object j = (case j of JObj kvs \<Rightarrow> True | _ \<Rightarrow> False)"

definition is_string :: "json \<Rightarrow> bool" where
  "is_string j = (case j of JStr s \<Rightarrow> True | _ \<Rightarrow> False)"

definition field :: "json \<Rightarrow> string \<Rightarrow> json option" where
  "field j k = (case j of JObj kvs \<Rightarrow> map_of kvs k | _ \<Rightarrow> None)"

definition cell_conforms :: "json \<Rightarrow> bool" where
  "cell_conforms c =
     (is_object c
      \<and> (case field c ''cell_type'' of Some (JStr t) \<Rightarrow> t = ''markdown'' \<or> t = ''code'' | _ \<Rightarrow> False)
      \<and> (case field c ''metadata'' of Some m \<Rightarrow> is_object m | None \<Rightarrow> False)
      \<and> (case field c ''source'' of Some (JArr ls) \<Rightarrow> list_all is_string ls | _ \<Rightarrow> False))"

definition notebook_conforms :: "json \<Rightarrow> bool" where
  "notebook_conforms d =
     (is_object d
      \<and> (case field d ''cells'' of Some (JArr cs) \<Rightarrow> list_all cell_conforms cs | _ \<Rightarrow> False)
      \<and> (case field d ''metadata'' of
            Some m \<Rightarrow> (case field m ''kernelspec'' of Some k \<Rightarrow> is_object k | None \<Rightarrow> False)
          | None \<Rightarrow> False)
      \<and> field d ''nbformat'' = Some (JNum 4))"

definition is_code_cell :: "json \<Rightarrow> bool" where
  "is_code_cell c = (field c ''cell_type'' = Some (JStr ''code''))"

section \<open>What a run shows: projections of the trace and properties of statements\<close>



text \<open>The exceptions that library interactions raised, in order.\<close>

fun raised :: "event list \<Rightarrow> exn list" where
  "raised [] = []"
| "raised (Called c (Inl e) # es) = e # raised es"
| "raised (Iterated v (Inl e) # es) = e # raised es"
| "raised (Exited m e0 (Inl e) # es) = e # raised es"
| "raised (ev # es) = raised es"

text \<open>
  A library whose context managers never swallow an exception: \<^verbatim>\<open>__exit__\<close> called with a
  pending exception raises or returns a false value. The simulators and networks of nengo
  and nengo_dl are such managers.
\<close>

definition never_swallows :: "lib \<Rightarrow> bool" where
  "never_swallows L = (\<forall>tr m e. exit_exc L tr m e \<noteq> Inr True)"

text \<open>
  A statement propagates library exceptions: whenever an interaction of its run raised, the
  statement ends with the exception that the last such interaction raised.
\<close>

definition propagates :: "'a py \<Rightarrow> bool" where
  "propagates m =
     (\<forall>s r s'. m s = (r, s') \<longrightarrow>
        (\<exists>new. trace s' = trace s @ new \<and> (raised new \<noteq> [] \<longrightarrow> r = Inl (last (raised new)))))"

text \<open>
  Relations between the state before a statement, how it ended (\<open>None\<close>: normally) and the
  state after it. \<open>obeys R m\<close>: every run of \<open>m\<close> is in \<open>R\<close>. A relation that holds of doing
  nothing and is closed under sequencing (\<open>steps\<close>), that holds of every library interaction
  (\<open>calls_ok\<close>) and of every binding of the names a statement binds (\<open>writes_ok\<close>) holds of
  the statement.
\<close>

definition outcome :: "exn + 'a \<Rightarrow> exn option" where
  "outcome r = (case r of Inl e \<Rightarrow> Some e | Inr a \<Rightarrow> None)"

definition obeys :: "(pystate \<Rightarrow> exn option \<Rightarrow> pystate \<Rightarrow> bool) \<Rightarrow> 'a py \<Rightarrow> bool" where
  "obeys R m = (\<forall>s. R s (outcome (fst (m s))) (snd (m s)))"

definition steps :: "(pystate \<Rightarrow> exn option \<Rightarrow> pystate \<Rightarrow> bool) \<Rightarrow> bool" where
  "steps R = ((\<forall>s r. R s r s) \<and> (\<forall>s s1 r s2. R s None s1 \<longrightarrow> R s1 r s2 \<longrightarrow> R s r s2))"

definition calls_ok :: "(pystate \<Rightarrow> exn option \<Rightarrow> pystate \<Rightarrow> bool) \<Rightarrow> lib \<Rightarrow> bool" where
  "calls_ok R L =
     ((\<forall>s c. R s (outcome (respond L (trace s) c))
               (s\<lparr>trace := trace s @ [Called c (respond L (trace s) c)]\<rparr>))
      \<and> (\<forall>s v. R s (outcome (items L (trace s) v))
               (s\<lparr>trace := trace s @ [Iterated v (items L (trace s) v)]\<rparr>))
      \<and> (\<forall>s s1 e m. R s (Some e) s1 \<longrightarrow>
               R s (outcome (fst (exit_with L m e s1))) (snd (exit_with L m e s1))))"

definition writes_ok :: "(pystate \<Rightarrow> exn option \<Rightarrow> pystate \<Rightarrow> bool) \<Rightarrow> string \<Rightarrow> bool" where
  "writes_ok R x = (\<forall>s v. R s None (s\<lparr>globals := (globals s)(x \<mapsto> v)\<rparr>))"

definition propagated :: "pystate \<Rightarrow> exn option \<Rightarrow> pystate \<Rightarrow> bool" where
  "propagated s r s' =
     (\<exists>new. trace s' = trace s @ new
        \<and> (case r of None \<Rightarrow> raised new = [] | Some e \<Rightarrow> raised new = [] \<or> last (raised new) = e))"


subsection \<open>Two stand-ins for the libraries\<close>

text \<open>
  \<open>flat_lib\<close> answers every operation with a fresh object, except that every call with three
  positional arguments of which the last is a string and no keyword argument (in the
  notebooks: the loss of the simulator, asked for as \<^verbatim>\<open>'mse'\<close>) returns one and the same
  object: a network whose loss stays where it is.
  \<open>failing_lib\<close> raises in every call of a callable and answers every other operation.
  Neither swallows exceptions.
\<close>

definition flat_lib :: lib where
  "flat_lib = \<lparr>
     respond = (\<lambda>tr c. case c of
                  Invoke f [a, b, VStr m] [] \<Rightarrow> Inr 0
                | _ \<Rightarrow> Inr (Suc (length tr))),
     items = (\<lambda>tr v. Inr [Suc (length tr), Suc (Suc (length tr))]),
     exit_exc = (\<lambda>tr m e. Inr False)\<rparr>"

definition failing_lib :: lib where
  "failing_lib = \<lparr>
     respond = (\<lambda>tr c. case c of
                  Invoke f args kw \<Rightarrow> Inl (LibraryError (length tr))
                | _ \<Rightarrow> Inr (Suc (length tr))),
     items = (\<lambda>tr v. Inr []),
     exit_exc = (\<lambda>tr m e. Inr False)\<rparr>"

text \<open>A fresh session in which the given names are bound.\<close>

definition session_with :: "(string \<times> val) list \<Rightarrow> pystate" where
  "session_with bs = \<lparr>globals = map_of bs, trace = []\<rparr>"









section \<open>Rules for the statements\<close>

lemma obeys_ret: "steps R \<Longrightarrow> obeys R (ret x)"
  by (simp add: obeys_def ret_def steps_def outcome_def)

lemma obeys_raise: "steps R \<Longrightarrow> obeys R (raise e)"
  by (simp add: obeys_def raise_def steps_def outcome_def)

lemma obeys_bnd:
  assumes R: "steps R" and m: "obeys R m" and f: "\<And>a. obeys R (f a)"
  shows "obeys R (bnd m f)"
  unfolding obeys_def
proof
  fix s
  show "R s (outcome (fst (bnd m f s))) (snd (bnd m f s))"
  proof (cases "m s")
    case (Pair r s1)
    have ms: "R s (outcome r) s1" using m Pair by (auto simp: obeys_def dest: spec [of _ s])
    show ?thesis
    proof (cases r)
      case (Inl e)
      then show ?thesis using ms Pair by (simp add: bnd_def outcome_def)
    next
      case (Inr a)
      have "R s1 (outcome (fst (f a s1))) (snd (f a s1))" using f [of a] by (simp add: obeys_def)
      moreover have "R s None s1" using ms Inr by (simp add: outcome_def)
      ultimately have "R s (outcome (fst (f a s1))) (snd (f a s1))"
        using R unfolding steps_def by blast
      then show ?thesis using Pair Inr by (simp add: bnd_def)
    qed
  qed
qed

lemma obeys_seq: "steps R \<Longrightarrow> obeys R m \<Longrightarrow> obeys R n \<Longrightarrow> obeys R (seq m n)"
  by (simp add: seq_def obeys_bnd)

lemma outcome_map_sum: "outcome (map_sum id f r) = outcome r"
  by (cases r) (simp_all add: outcome_def)

lemma obeys_ecall: "calls_ok R L \<Longrightarrow> obeys R (ecall L c)"
  by (simp add: obeys_def ecall_def calls_ok_def Let_def outcome_map_sum)

lemma obeys_load: "steps R \<Longrightarrow> obeys R (load x)"
  by (simp add: obeys_def load_def steps_def outcome_def split: option.splits)

lemma obeys_assign: "writes_ok R x \<Longrightarrow> obeys R (assign x v)"
  by (simp add: obeys_def assign_def writes_ok_def outcome_def)


lemma obeys_bind_name: "steps R \<Longrightarrow> writes_ok R x \<Longrightarrow> obeys R m \<Longrightarrow> obeys R (bind_name x m)"
  by (simp add: bind_name_def obeys_bnd obeys_assign)

lemma obeys_discard: "steps R \<Longrightarrow> obeys R m \<Longrightarrow> obeys R (discard m)"
  by (simp add: discard_def obeys_bnd obeys_ret)

lemma obeys_eval_all: "steps R \<Longrightarrow> list_all (obeys R) ms \<Longrightarrow> obeys R (eval_all ms)"
  by (induction ms) (simp_all add: obeys_ret obeys_bnd)

lemma obeys_eval_kw: "steps R \<Longrightarrow> list_all (\<lambda>p. obeys R (snd p)) ms \<Longrightarrow> obeys R (eval_kw ms)"
  by (induction ms rule: eval_kw.induct) (simp_all add: obeys_ret obeys_bnd)

lemma obeys_getattr: "steps R \<Longrightarrow> calls_ok R L \<Longrightarrow> obeys R (getattr L v a)"
  by (simp add: getattr_def obeys_ecall obeys_ret split: val.splits option.splits)

lemma obeys_store_attr: "steps R \<Longrightarrow> calls_ok R L \<Longrightarrow> obeys R (store_attr L v a x)"
  by (simp add: store_attr_def obeys_ecall obeys_ret obeys_bnd split: val.splits)

lemma obeys_seq_index: "steps R \<Longrightarrow> calls_ok R L \<Longrightarrow> obeys R (seq_index L v xs k)"
  by (simp add: seq_index_def Let_def obeys_ecall obeys_ret obeys_raise split: val.splits)

lemma obeys_subscript: "steps R \<Longrightarrow> calls_ok R L \<Longrightarrow> obeys R (subscript L v k)"
  by (simp add: subscript_def obeys_ecall obeys_ret obeys_raise obeys_seq_index
      split: val.splits option.splits)

lemma obeys_py_add: "steps R \<Longrightarrow> calls_ok R L \<Longrightarrow> obeys R (py_add L a b)"
  by (simp add: py_add_def obeys_ecall obeys_ret split: val.splits)

lemma obeys_py_mul: "steps R \<Longrightarrow> calls_ok R L \<Longrightarrow> obeys R (py_mul L a b)"
  by (simp add: py_mul_def obeys_ecall obeys_ret split: val.splits)

lemma obeys_call_value: "steps R \<Longrightarrow> calls_ok R L \<Longrightarrow> obeys R (call_value L f args kwargs)"
  by (simp add: call_value_def obeys_ecall obeys_ret split: val.splits)

lemma obeys_invoke:
  "steps R \<Longrightarrow> calls_ok R L \<Longrightarrow> obeys R f \<Longrightarrow> list_all (obeys R) args
   \<Longrightarrow> list_all (\<lambda>p. obeys R (snd p)) kwargs \<Longrightarrow> obeys R (invoke L f args kwargs)"
  by (simp add: invoke_def obeys_bnd obeys_eval_all obeys_eval_kw obeys_call_value)

lemma obeys_items:
  "calls_ok R L \<Longrightarrow>
   obeys R (\<lambda>s. let r = items L (trace s) v
                in (map_sum id (map VObj) r, s\<lparr>trace := trace s @ [Iterated v r]\<rparr>))"
  by (simp add: obeys_def calls_ok_def Let_def outcome_map_sum)

lemma obeys_unpack: "steps R \<Longrightarrow> calls_ok R L \<Longrightarrow> obeys R (unpack L v)"
  by (simp add: unpack_def obeys_ret obeys_items split: val.splits)

lemma obeys_invoke_star:
  "steps R \<Longrightarrow> calls_ok R L \<Longrightarrow> obeys R f \<Longrightarrow> obeys R arg \<Longrightarrow> obeys R (invoke_star L f arg)"
  by (simp add: invoke_star_def obeys_bnd obeys_unpack obeys_call_value)

lemma obeys_py_range: "steps R \<Longrightarrow> calls_ok R L \<Longrightarrow> obeys R (py_range L v)"
  by (simp add: py_range_def obeys_ret obeys_bnd obeys_ecall obeys_unpack split: val.splits)

lemma obeys_for_each:
  "steps R \<Longrightarrow> writes_ok R x \<Longrightarrow> obeys R body \<Longrightarrow> obeys R (for_each x vs body)"
  by (induction vs) (simp_all add: obeys_ret obeys_seq obeys_assign)

lemma obeys_with_block:
  assumes R: "steps R" and L: "calls_ok R L" and mgr: "obeys R mgr"
    and x: "case x of None \<Rightarrow> True | Some n \<Rightarrow> writes_ok R n" and body: "obeys R body"
  shows "obeys R (with_block L mgr x body)"
proof -
  have bind: "obeys R (case x of None \<Rightarrow> ret () | Some n \<Rightarrow> assign n v)" for v
    using R x by (cases x) (simp_all add: obeys_ret obeys_assign)
  have tail: "obeys R (\<lambda>s. case body s of
                   (Inr u, s') \<Rightarrow> discard (ecall L (Exit m)) s'
                 | (Inl e, s') \<Rightarrow> exit_with L m e s')" for m
    unfolding obeys_def
  proof
    fix s
    obtain r s1 where b: "body s = (r, s1)" by (cases "body s")
    have rb: "R s (outcome r) s1" using body b by (auto simp: obeys_def dest: spec [of _ s])
    show "R s (outcome (fst (case body s of
                   (Inr u, s') \<Rightarrow> discard (ecall L (Exit m)) s'
                 | (Inl e, s') \<Rightarrow> exit_with L m e s')))
            (snd (case body s of
                   (Inr u, s') \<Rightarrow> discard (ecall L (Exit m)) s'
                 | (Inl e, s') \<Rightarrow> exit_with L m e s'))"
    proof (cases r)
      case (Inl e)
      then have "R s (Some e) s1" using rb by (simp add: outcome_def)
      then have "R s (outcome (fst (exit_with L m e s1))) (snd (exit_with L m e s1))"
        using L unfolding calls_ok_def by blast
      then show ?thesis using b Inl by simp
    next
      case (Inr u)
      have "obeys R (discard (ecall L (Exit m)))" using R L by (simp add: obeys_discard obeys_ecall)
      then have "R s1 (outcome (fst (discard (ecall L (Exit m)) s1))) (snd (discard (ecall L (Exit m)) s1))"
        by (simp add: obeys_def)
      moreover have "R s None s1" using rb Inr by (simp add: outcome_def)
      ultimately have "R s (outcome (fst (discard (ecall L (Exit m)) s1))) (snd (discard (ecall L (Exit m)) s1))"
        using R unfolding steps_def by blast
      then show ?thesis using b Inr by simp
    qed
  qed
  show ?thesis
    unfolding with_block_def
    by (intro obeys_bnd obeys_seq obeys_ecall R L mgr bind tail)
qed

lemma obeys_display: "steps R \<Longrightarrow> calls_ok R L \<Longrightarrow> obeys R m \<Longrightarrow> obeys R (display L m)"
  by (simp add: display_def obeys_bnd obeys_ret obeys_discard obeys_ecall)

lemma obeys_block: "steps R \<Longrightarrow> list_all (obeys R) ms \<Longrightarrow> obeys R (block ms)"
  by (induction ms) (simp_all add: obeys_ret obeys_seq)

lemma obeys_attr: "steps R \<Longrightarrow> calls_ok R L \<Longrightarrow> obeys R m \<Longrightarrow> obeys R (attr L m a)"
  by (simp add: attr_def obeys_bnd obeys_getattr)

lemma obeys_item: "steps R \<Longrightarrow> calls_ok R L \<Longrightarrow> obeys R m \<Longrightarrow> obeys R k \<Longrightarrow> obeys R (item L m k)"
  by (simp add: item_def obeys_bnd obeys_subscript)

lemma obeys_set_attr:
  "steps R \<Longrightarrow> calls_ok R L \<Longrightarrow> obeys R target \<Longrightarrow> obeys R rhs \<Longrightarrow> obeys R (set_attr L target a rhs)"
  by (simp add: set_attr_def obeys_bnd obeys_discard obeys_store_attr)

lemma obeys_set_attr_of_name:
  "steps R \<Longrightarrow> calls_ok R L \<Longrightarrow> writes_ok R x \<Longrightarrow> obeys R rhs \<Longrightarrow> obeys R (set_attr_of_name L x a rhs)"
  by (simp add: set_attr_of_name_def obeys_bnd obeys_load obeys_store_attr obeys_assign)

lemma obeys_dict1: "steps R \<Longrightarrow> obeys R k \<Longrightarrow> obeys R v \<Longrightarrow> obeys R (dict1 k v)"
  by (simp add: dict1_def obeys_bnd obeys_ret)

lemma obeys_tuple_of: "steps R \<Longrightarrow> list_all (obeys R) ms \<Longrightarrow> obeys R (tuple_of ms)"
  by (simp add: tuple_of_def obeys_bnd obeys_ret obeys_eval_all)

lemma obeys_list_of: "steps R \<Longrightarrow> list_all (obeys R) ms \<Longrightarrow> obeys R (list_of ms)"
  by (simp add: list_of_def obeys_bnd obeys_ret obeys_eval_all)

lemma obeys_append_to:
  assumes "steps R" "calls_ok R L" "writes_ok R x" "obeys R arg"
  shows "obeys R (append_to L x arg)"
proof -
  have "obeys R (case l of
           VList xs \<Rightarrow> bnd arg (\<lambda>v. assign x (VList (xs @ [v])))
         | _ \<Rightarrow> discard (invoke L (getattr L l ''append'') [arg] []))" for l
    using assms
    by (cases l) (simp_all add: obeys_bnd obeys_assign obeys_discard obeys_invoke obeys_getattr)
  then show ?thesis
    unfolding append_to_def using assms by (intro obeys_bnd obeys_load) simp_all
qed

lemma obeys_assign2:
  assumes "steps R" "calls_ok R L" "writes_ok R a" "writes_ok R b" "obeys R rhs"
  shows "obeys R (assign2 L a b rhs)"
proof -
  have "obeys R (case vs of [x, y] \<Rightarrow> seq (assign a x) (assign b y) | _ \<Rightarrow> raise ValueError)" for vs
    using assms by (simp add: obeys_seq obeys_assign obeys_raise split: list.splits)
  then show ?thesis
    unfolding assign2_def using assms by (intro obeys_bnd obeys_unpack) simp_all
qed

lemma obeys_for_range:
  "steps R \<Longrightarrow> calls_ok R L \<Longrightarrow> writes_ok R x \<Longrightarrow> obeys R n \<Longrightarrow> obeys R body
   \<Longrightarrow> obeys R (for_range L x n body)"
  by (simp add: for_range_def obeys_bnd obeys_py_range obeys_for_each)

lemma obeys_eval_expr: "steps R \<Longrightarrow> calls_ok R L \<Longrightarrow> obeys R (eval_expr L env e)"
  by (induction e)
     (simp_all add: obeys_ret obeys_load obeys_attr obeys_bnd obeys_py_mul obeys_invoke
        split: option.splits)

lemma obeys_apply_lambda: "steps R \<Longrightarrow> calls_ok R L \<Longrightarrow> obeys R (apply_lambda L f v)"
  by (simp add: apply_lambda_def obeys_eval_expr obeys_call_value split: val.splits)

lemmas obeys_rules =
  obeys_ret obeys_raise obeys_bnd obeys_seq obeys_ecall obeys_load obeys_assign
  obeys_bind_name obeys_discard obeys_getattr obeys_store_attr obeys_subscript obeys_py_add
  obeys_py_mul obeys_call_value obeys_invoke obeys_unpack obeys_invoke_star obeys_py_range
  obeys_for_each obeys_with_block obeys_display obeys_block obeys_attr obeys_item obeys_set_attr
  obeys_set_attr_of_name obeys_dict1 obeys_tuple_of obeys_list_of obeys_append_to obeys_assign2
  obeys_for_range obeys_apply_lambda

lemma raised_append: "raised (xs @ ys) = raised xs @ raised ys"
  by (induction xs rule: raised.induct) simp_all

lemma steps_propagated: "steps propagated"
  unfolding steps_def propagated_def
  by (auto simp: raised_append split: option.splits)

lemma writes_ok_propagated: "writes_ok propagated x"
  by (simp add: writes_ok_def propagated_def)

lemma calls_ok_propagated:
  assumes "never_swallows L"
  shows "calls_ok propagated L"
  unfolding calls_ok_def
proof (intro conjI allI impI)
  fix s c
  show "propagated s (outcome (respond L (trace s) c))
          (s\<lparr>trace := trace s @ [Called c (respond L (trace s) c)]\<rparr>)"
    by (cases "respond L (trace s) c") (simp_all add: propagated_def outcome_def)
next
  fix s v
  show "propagated s (outcome (items L (trace s) v))
          (s\<lparr>trace := trace s @ [Iterated v (items L (trace s) v)]\<rparr>)"
    by (cases "items L (trace s) v") (simp_all add: propagated_def outcome_def)
next
  fix s s1 e m
  assume "propagated s (Some e) s1"
  then obtain new where new: "trace s1 = trace s @ new" "raised new = [] \<or> last (raised new) = e"
    by (auto simp: propagated_def)
  show "propagated s (outcome (fst (exit_with L m e s1))) (snd (exit_with L m e s1))"
  proof (cases "exit_exc L (trace s1) m e")
    case (Inl e')
    then show ?thesis
      using new by (simp add: exit_with_def Let_def propagated_def outcome_def raised_append)
  next
    case (Inr b)
    then have "\<not> b" using assms by (auto simp: never_swallows_def)
    then show ?thesis
      using new Inr by (simp add: exit_with_def Let_def propagated_def outcome_def raised_append)
  qed
qed

lemma obeys_propagates: "obeys propagated m \<Longrightarrow> propagates m"
  unfolding obeys_def propagates_def propagated_def
proof (intro allI impI)
  fix s r s'
  assume a: "\<forall>s. \<exists>new. trace (snd (m s)) = trace s @ new \<and>
              (case outcome (fst (m s)) of None \<Rightarrow> raised new = []
               | Some e \<Rightarrow> raised new = [] \<or> last (raised new) = e)"
    and m: "m s = (r, s')"
  from a m obtain new where "trace s' = trace s @ new"
    "case outcome r of None \<Rightarrow> raised new = [] | Some e \<Rightarrow> raised new = [] \<or> last (raised new) = e"
    by (auto dest!: spec [of _ s])
  then show "\<exists>new. trace s' = trace s @ new \<and> (raised new \<noteq> [] \<longrightarrow> r = Inl (last (raised new)))"
    by (cases r) (auto simp: outcome_def)
qed

subsection \<open>Running a statement step by step\<close>

lemma ecall_run:
  "ecall L c s = (case respond L (trace s) c of
       Inl e \<Rightarrow> (Inl e, s\<lparr>trace := trace s @ [Called c (Inl e)]\<rparr>)
     | Inr h \<Rightarrow> (Inr (VObj h), s\<lparr>trace := trace s @ [Called c (Inr h)]\<rparr>))"
  by (simp add: ecall_def Let_def split: sum.splits)

lemmas run_simps = bnd_def seq_def ret_def raise_def load_def assign_def bind_name_def discard_def
  attr_def invoke_def getattr_def call_value_def with_block_def exit_with_def ecall_run Let_def







section \<open>Notebook 1\<close>








section \<open>Both notebooks\<close>

lemmas cell_defs =
  scalars_setup_def scalars_model_def scalars_viz_def scalars_image_def scalars_simulate_def
  scalars_curves_def scalars_intercepts_def scalars_encoders_def plot_tuning_curves_def
  label_axes_def autoenc_setup_def autoenc_mnist_def autoenc_parameters_def autoenc_network_def
  autoenc_data_def autoenc_train_def autoenc_plot_def autoenc_empty_def net_config_def
  make_tf_encode_def make_tf_decode_def step_on_test_inputs_def train_pass_def
  new_simulator_def train_body_def
  repetitions_plus_1_def show_image_def

lemma cells_obey:
  assumes "steps R" "calls_ok R L" "\<And>x. writes_ok R x"
  shows "list_all (obeys R) (scalars_cells L @ autoenc_cells L)"
  using assms
  by (simp add: scalars_cells_def autoenc_cells_def cell_defs obeys_rules)

lemma methods_obey:
  assumes "steps R" "calls_ok R L"
  shows "obeys R (Encoder_pre_build L self a b)" "obeys R (Decoder_pre_build L self a b)"
    "obeys R (Encoder_call L self t x)" "obeys R (Decoder_call L self t x)"
  using assms
  by (simp_all add: Encoder_pre_build_def Decoder_pre_build_def Encoder_call_def Decoder_call_def
      fully_connected_def obeys_rules)

text \<open>
  C2. No operation of either notebook catches or reinterprets an exception. For a library
  whose context managers swallow nothing: in every run of every code cell of both notebooks,
  of the four methods of the two classes and of the lambda, if a library interaction raised,
  the run ends with the exception that the last such interaction raised. (After an
  interaction raises, the one thing the code still does is hand the exception to
  \<^verbatim>\<open>__exit__\<close> of the \<^verbatim>\<open>with\<close> statements around it; so a later raise can only come
  from there.)
\<close>

theorem cells_propagate_library_exceptions:
  assumes "never_swallows L"
  shows "list_all propagates (scalars_cells L @ autoenc_cells L)
       \<and> propagates (Encoder_pre_build L self shape_in shape_out)
       \<and> propagates (Decoder_pre_build L self shape_in shape_out)
       \<and> propagates (Encoder_call L self t x)
       \<and> propagates (Decoder_call L self t x)
       \<and> propagates (apply_lambda L input_lambda t)"
proof -
  note R = steps_propagated calls_ok_propagated [OF assms] writes_ok_propagated
  have "list_all (obeys propagated) (scalars_cells L @ autoenc_cells L)"
    by (rule cells_obey) (rule R)+
  then have "list_all propagates (scalars_cells L @ autoenc_cells L)"
    by (auto simp: list_all_iff intro: obeys_propagates)
  then show ?thesis
    using methods_obey [OF R(1,2)] obeys_apply_lambda [OF R(1,2)]
    by (simp add: obeys_propagates)
qed

theorem cells_propagate_library_exceptions_witness:
  "never_swallows failing_lib
   \<and> list_all propagates (scalars_cells failing_lib @ autoenc_cells failing_lib)
   \<and> scalars_simulate failing_lib (session_with [(''nengo'', VObj 1), (''model'', VObj 2)])
       = (Inl (LibraryError 1),
          \<lparr>globals = map_of [(''nengo'', VObj 1), (''model'', VObj 2)],
           trace = [Called (GetAttr (VObj 1) ''Simulator'') (Inr 1),
                    Called (Invoke (VObj 1) [VObj 2] []) (Inl (LibraryError 1))]\<rparr>)"
proof -
  have ns: "never_swallows failing_lib"
    by (simp add: never_swallows_def failing_lib_def)
  have run: "scalars_simulate failing_lib (session_with [(''nengo'', VObj 1), (''model'', VObj 2)])
       = (Inl (LibraryError 1),
          \<lparr>globals = map_of [(''nengo'', VObj 1), (''model'', VObj 2)],
           trace = [Called (GetAttr (VObj 1) ''Simulator'') (Inr 1),
                    Called (Invoke (VObj 1) [VObj 2] []) (Inl (LibraryError 1))]\<rparr>)"
    by (simp add: scalars_simulate_def session_with_def run_simps failing_lib_def)
  from cells_propagate_library_exceptions [OF ns, THEN conjunct1]
  have "list_all propagates (scalars_cells failing_lib @ autoenc_cells failing_lib)" .
  with ns run show ?thesis by (intro conjI)
qed

section \<open>The documents\<close>

lemma scalars_cells_conform: "list_all cell_conforms scalars_ipynb_cells"
  unfolding scalars_ipynb_cells_def
  by (simp add: cell_conforms_def is_object_def is_string_def field_def)

lemma autoenc_cells_conform: "list_all cell_conforms autoenc_ipynb_cells"
  unfolding autoenc_ipynb_cells_def
  by (simp add: cell_conforms_def is_object_def is_string_def field_def)

text \<open>Every code cell of the two documents is one cell of the model.\<close>

lemma code_cells_counted:
  "length (filter is_code_cell scalars_ipynb_cells) = length (scalars_cells L)"
  "length (filter is_code_cell autoenc_ipynb_cells) = length (autoenc_cells L)"
  by (simp_all add: scalars_ipynb_cells_def autoenc_ipynb_cells_def scalars_cells_def
      autoenc_cells_def is_code_cell_def field_def)

text \<open>
  C6. Each of the two notebook documents has the structure of a notebook of format 4: it is
  an object whose \<^verbatim>\<open>cells\<close> is a list of objects, each with a cell type (markdown or code),
  a metadata object and a list of source lines; whose \<^verbatim>\<open>metadata\<close> is an object that holds
  the kernel specification; and whose \<^verbatim>\<open>nbformat\<close> is 4.
\<close>

theorem notebooks_conform:
  "notebook_conforms scalars_ipynb \<and> notebook_conforms autoenc_ipynb"
  using scalars_cells_conform autoenc_cells_conform
  by (simp add: notebook_conforms_def scalars_ipynb_def autoenc_ipynb_def is_object_def field_def)

section \<open>Notebook 2\<close>

subsection \<open>The data cell\<close>

lemmas more_run_simps = item_def subscript_def dict1_def

text \<open>
  C9. The target mapping aliases the input mapping. Whenever the data cell completes, in a
  session where \<^verbatim>\<open>mnist\<close> is the object the loader returned: \<^verbatim>\<open>train_targets\<close> binds the
  value of \<^verbatim>\<open>decode_probe\<close> to the very object (the same reference \<open>a\<close>) that
  \<^verbatim>\<open>train_inputs\<close> binds the value of \<^verbatim>\<open>inp\<close> to, and \<^verbatim>\<open>test_targets\<close> and
  \<^verbatim>\<open>test_inputs\<close> likewise share the one object \<open>b\<close>: the reconstruction target is the
  network input itself.
\<close>

theorem targets_alias_inputs:
  assumes "globals s ''mnist'' = Some (VObj m)" and "autoenc_data L s = (Inr (), s')"
  shows "\<exists>i d a b. globals s ''inp'' = Some i \<and> globals s ''decode_probe'' = Some d
           \<and> globals s' ''train_inputs'' = Some (VDict [(i, VObj a)])
           \<and> globals s' ''train_targets'' = Some (VDict [(d, VObj a)])
           \<and> globals s' ''test_inputs'' = Some (VDict [(i, VObj b)])
           \<and> globals s' ''test_targets'' = Some (VDict [(d, VObj b)])"
  using assms
  unfolding autoenc_data_def
  by (auto simp add: run_simps more_run_simps split: sum.splits option.splits)

theorem targets_alias_inputs_witness:
  "fst (autoenc_data flat_lib
          (session_with [(''mnist'', VObj 1), (''inp'', VObj 2), (''decode_probe'', VObj 3)])) = Inr ()
   \<and> (\<exists>i d a b.
         globals (session_with [(''mnist'', VObj 1), (''inp'', VObj 2), (''decode_probe'', VObj 3)]) ''inp''
           = Some i
       \<and> globals (session_with [(''mnist'', VObj 1), (''inp'', VObj 2), (''decode_probe'', VObj 3)])
           ''decode_probe'' = Some d
       \<and> globals (snd (autoenc_data flat_lib
            (session_with [(''mnist'', VObj 1), (''inp'', VObj 2), (''decode_probe'', VObj 3)])))
           ''train_inputs'' = Some (VDict [(i, VObj a)])
       \<and> globals (snd (autoenc_data flat_lib
            (session_with [(''mnist'', VObj 1), (''inp'', VObj 2), (''decode_probe'', VObj 3)])))
           ''train_targets'' = Some (VDict [(d, VObj a)])
       \<and> globals (snd (autoenc_data flat_lib
            (session_with [(''mnist'', VObj 1), (''inp'', VObj 2), (''decode_probe'', VObj 3)])))
           ''test_inputs'' = Some (VDict [(i, VObj b)])
       \<and> globals (snd (autoenc_data flat_lib
            (session_with [(''mnist'', VObj 1), (''inp'', VObj 2), (''decode_probe'', VObj 3)])))
           ''test_targets'' = Some (VDict [(d, VObj b)]))"
proof -
  let ?s = "session_with [(''mnist'', VObj 1), (''inp'', VObj 2), (''decode_probe'', VObj 3)]"
  have g: "globals ?s ''mnist'' = Some (VObj 1)"
    by (simp add: session_with_def)
  have e: "fst (autoenc_data flat_lib ?s) = Inr ()"
    by (simp add: autoenc_data_def session_with_def run_simps more_run_simps flat_lib_def add_axis_def)
  then have run: "autoenc_data flat_lib ?s = (Inr (), snd (autoenc_data flat_lib ?s))"
    by (metis prod.collapse)
  from e targets_alias_inputs [OF g run] show ?thesis by (rule conjI)
qed

subsection \<open>The two classes\<close>













subsection \<open>The training cell\<close>




























section \<open>What the earlier cells leave behind\<close>

text \<open>
  The theorems above speak of sessions in which the imported modules are bound to library
  objects and the layer sizes to their numbers. The cells that run first establish exactly
  that, whenever they complete.
\<close>

lemma scalars_setup_binds:
  assumes "scalars_setup L s = (Inr (), s')"
  shows "\<exists>np plt nengo u t.
           globals s' ''np'' = Some (VObj np) \<and> globals s' ''plt'' = Some (VObj plt)
           \<and> globals s' ''nengo'' = Some (VObj nengo) \<and> globals s' ''Uniform'' = Some (VObj u)
           \<and> globals s' ''tuning_curves'' = Some (VObj t)"
  using assms
  unfolding scalars_setup_def
  by (auto simp add: run_simps split: sum.splits)

lemma autoenc_setup_binds:
  assumes "autoenc_setup L s = (Inr (), s')"
  shows "\<exists>nengo nd np tf plt.
           globals s' ''nengo'' = Some (VObj nengo) \<and> globals s' ''nengo_dl'' = Some (VObj nd)
           \<and> globals s' ''np'' = Some (VObj np) \<and> globals s' ''tf'' = Some (VObj tf)
           \<and> globals s' ''plt'' = Some (VObj plt)"
  using assms
  unfolding autoenc_setup_def
  by (auto simp add: run_simps split: sum.splits)

lemma autoenc_mnist_binds:
  assumes "autoenc_mnist L s = (Inr (), s')"
  shows "\<exists>m. globals s' ''mnist'' = Some (VObj m)"
  using assms
  unfolding autoenc_mnist_def
  by (auto simp add: run_simps split: sum.splits)

lemma autoenc_parameters_binds:
  "autoenc_parameters s =
     (Inr (), s\<lparr>globals := (globals s)(''n_hidden_1'' \<mapsto> VInt 128, ''n_hidden_2'' \<mapsto> VInt 36,
                                        ''n_input'' \<mapsto> VInt 784)\<rparr>)"
  by (simp add: autoenc_parameters_def run_simps)

end
